theory Spec2Isabelle
  imports Complex_Main
begin

section \<open>Storage column types\<close>

text \<open>
  The source dispatches on SQLAlchemy type objects, sometimes with \<open>isinstance\<close>
  (which follows the class hierarchy) and sometimes with \<open>type(...)\<close> (the exact
  class). Both are kept. The ten classes the source names are constructors of their
  own; \<open>JSON\<close> and \<open>ARRAY\<close> are the PostgreSQL ones (\<open>postgresql.JSON\<close>,
  \<open>postgresql.ARRAY\<close>). \<open>Subclass n b\<close> is a class named \<open>n\<close> that derives from
  \<open>b\<close> (as \<open>BigInteger\<close> derives from \<open>Integer\<close> and \<open>Unicode\<close> from
  \<open>String\<close>), and \<open>Other n\<close> is a type class related to none of the ten
  (\<open>LargeBinary\<close>, \<open>Numeric\<close>, \<open>Time\<close>).
\<close>

datatype sa_class =
    Enum | Text | String | Integer | Float | DateTime | Date | Boolean | JSON | ARRAY
  | Subclass string sa_class
  | Other string

text \<open>
  In SQLAlchemy \<open>Text\<close> and \<open>Enum\<close> both derive from \<open>String\<close>; the other
  eight named classes are unrelated to one another. The comment in \<open>build_trafaret\<close>
  (check for Text should be before String) relies on the first fact.
\<close>

fun issubclass :: "sa_class \<Rightarrow> sa_class \<Rightarrow> bool" where
  "issubclass (Subclass n b) k = (Subclass n b = k \<or> issubclass b k)"
| "issubclass Text k = (k = Text \<or> k = String)"
| "issubclass Enum k = (k = Enum \<or> k = String)"
| "issubclass b k = (b = k)"

text \<open>
  A type object: its class and the attributes the source reads (\<open>enums\<close>,
  \<open>length\<close>, \<open>item_type\<close>). An attribute that the class does not use is ignored
  by every function below.
\<close>

datatype sa_type =
  SaType (class_of: sa_class) (enums: "string list") (length_attr: "nat option")
    (item_type: "sa_type option")

definition isinstance :: "sa_type \<Rightarrow> sa_class \<Rightarrow> bool" where
  "isinstance sa_type k = issubclass (class_of sa_type) k"

text \<open>
  Python values: decoded JSON, the datetime a timestamp parses to, and an object of
  any other class, by the name of its class.
\<close>

datatype pyval =
    PyNone
  | PyBool bool
  | PyInt int
  | PyFloat rat
  | PyStr string
  | PyList "pyval list"
  | PyDict "(string \<times> pyval) list"
  | PyDateTime int
  | PyObject string

text \<open>
  \<open>column.server_default\<close> is \<open>None\<close> or the \<open>DefaultClause\<close> object that
  SQLAlchemy makes of the default given to the column (here with the text of that
  default).
\<close>

datatype default_clause = DefaultClause string

record column =
  name :: string
  type :: sa_type
  nullable :: bool
  server_default :: "default_clause option"

text \<open>
  \<open>table.c\<close> is an ordered collection of columns by key; \<open>table.c.items()\<close> is
  the list itself, \<open>table.c[k]\<close> the first entry with key \<open>k\<close>.
\<close>

record table =
  table_name :: string
  c :: "(string \<times> column) list"

section \<open>Validators\<close>

text \<open>The trafaret objects that \<open>build_trafaret\<close> and \<open>build_field\<close> construct.\<close>

datatype trafaret =
    t_Enum "string list"
  | t_String "nat option"
  | t_Int
  | t_Float
  | rfc_3339_DateTime
  | t_StrBool
  | t_Null
  | AnyDict
  | t_List trafaret
  | t_Or trafaret trafaret

text \<open>
  A trafaret \<open>DataError\<close>: a message, or errors by key (a field name in a dict, an
  index in a list or among the alternatives of an \<open>Or\<close>).
\<close>

datatype ekey = Name string | Index nat

datatype data_error =
    Msg string
  | Errors "(ekey \<times> data_error) list"

text \<open>
  The exceptions of the source. \<open>NotImplementedError\<close> carries the offending type
  object (\<open>None\<close> when it is Python's \<open>None\<close>), \<open>Exception\<close> the column type
  that \<open>check_comparator\<close> names in its message, \<open>JsonValidaitonError\<close> the
  errors by field name it is given as keyword arguments in \<open>check_value\<close>, and
  \<open>JsonValidaitonError_columns\<close> the set of column names that \<open>validate_query\<close>
  joins into its message (a Python set has no fixed order). \<open>TypeError\<close> is
  Python's, for \<open>v + '%'\<close> on a \<open>v\<close> that is no string and for keyword arguments
  unpacked from what is no mapping with string keys; \<open>AttributeError\<close> is raised by
  a call of a method the object does not have; \<open>ArgumentError\<close> is SQLAlchemy's, for
  an operand a comparison does not take.
\<close>

datatype error =
    NotImplementedError "sa_type option"
  | KeyError string
  | Exception sa_type
  | ValueError string
  | TypeError
  | AttributeError
  | ArgumentError
  | JsonValidaitonError data_error
  | JsonValidaitonError_columns "string set"

text \<open>
  \<open>build_trafaret\<close>, in the order of its \<open>isinstance\<close> chain. The callers in this
  module pass no keyword arguments.
\<close>

fun build_trafaret :: "sa_type \<Rightarrow> error + trafaret" where
  "build_trafaret (SaType k ens len item) =
     (if issubclass k Enum then Inr (t_Enum ens)
      else if issubclass k Text then Inr (t_String None)
      else if issubclass k String then Inr (t_String len)
      else if issubclass k Integer then Inr t_Int
      else if issubclass k Float then Inr t_Float
      else if issubclass k DateTime then Inr rfc_3339_DateTime
      else if issubclass k Date then Inr rfc_3339_DateTime
      else if issubclass k Boolean then Inr t_StrBool
      else if issubclass k JSON then Inr (t_Or AnyDict (t_List AnyDict))
      else if issubclass k ARRAY then
        (case item of
           None \<Rightarrow> Inl (NotImplementedError None)
         | Some it \<Rightarrow>
             (case build_trafaret it of
                Inl e \<Rightarrow> Inl e
              | Inr item_trafaret \<Rightarrow> Inr (t_List item_trafaret)))
      else Inl (NotImplementedError (Some (SaType k ens len item))))"

text \<open>\<open>build_type_mapper\<close>, in the order of its \<open>isinstance\<close> chain.\<close>

definition build_type_mapper :: "sa_type \<Rightarrow> error + string" where
  "build_type_mapper sa_type =
     (if isinstance sa_type Enum then Inr ''string''
      else if isinstance sa_type String then Inr ''string''
      else if isinstance sa_type Text then Inr ''text''
      else if isinstance sa_type Integer then Inr ''string''
      else if isinstance sa_type Float then Inr ''float''
      else if isinstance sa_type DateTime then Inr ''datetime''
      else if isinstance sa_type Date then Inr ''date''
      else if isinstance sa_type Boolean then Inr ''boolean''
      else if isinstance sa_type JSON then Inr ''json''
      else if isinstance sa_type ARRAY then Inr ''embedded_list''
      else Inl (NotImplementedError (Some sa_type)))"

section \<open>Operators\<close>

text \<open>\<open>comparator_map\<close>: a dict keyed by class, looked up with the exact class.\<close>

fun comparator_map :: "sa_class \<Rightarrow> string list option" where
  "comparator_map String = Some [''eq'', ''ne'', ''like'']"
| "comparator_map Text = Some [''eq'', ''ne'', ''like'']"
| "comparator_map Integer = Some [''eq'', ''ne'', ''lt'', ''le'', ''gt'', ''ge'', ''in'']"
| "comparator_map Float = Some [''eq'', ''ne'', ''lt'', ''le'', ''gt'', ''ge'']"
| "comparator_map Date = Some [''eq'', ''ne'', ''lt'', ''le'', ''gt'', ''ge'']"
| "comparator_map k = None"

definition check_comparator :: "column \<Rightarrow> string \<Rightarrow> error + unit" where
  "check_comparator column comparator =
     (case comparator_map (class_of (type column)) of
        None \<Rightarrow> Inl (Exception (type column))
      | Some ops \<Rightarrow>
          if comparator \<notin> set ops then Inl (Exception (type column)) else Inr ())"

section \<open>Checking values\<close>

text \<open>
  Conversions that the trafaret library leaves to the Python runtime and to
  \<open>pyrfc3339\<close> are a parameter of the model: \<open>int(s)\<close> and \<open>float(v)\<close>
  (\<open>None\<close> for a \<open>ValueError\<close>), the RFC 3339 parser, and the spellings
  \<open>StrBool\<close> reads a boolean from. Nothing is assumed about them.
\<close>

record pylib =
  py_int :: "string \<Rightarrow> int option"
  py_float :: "pyval \<Rightarrow> rat option"
  rfc3339_parse :: "pyval \<Rightarrow> data_error + pyval"
  str_bool :: "pyval \<Rightarrow> bool option"

text \<open>The library left unspecified, for closed examples that reach no conversion.\<close>

abbreviation any_lib :: pylib where
  "any_lib \<equiv> undefined"

fun str_nat :: "nat \<Rightarrow> string" where
  "str_nat n =
     (if n < 10 then [char_of (48 + n)]
      else str_nat (n div 10) @ [char_of (48 + n mod 10)])"

fun list_errors :: "nat \<Rightarrow> (data_error + pyval) list \<Rightarrow> (ekey \<times> data_error) list" where
  "list_errors i [] = []"
| "list_errors i (Inl e # rs) = (Index i, e) # list_errors (Suc i) rs"
| "list_errors i (Inr v # rs) = list_errors (Suc i) rs"

fun list_values :: "(data_error + pyval) list \<Rightarrow> pyval list" where
  "list_values [] = []"
| "list_values (Inl e # rs) = list_values rs"
| "list_values (Inr v # rs) = v # list_values rs"

text \<open>
  What a trafaret of the trafaret library does with a value: the value it returns, or
  its \<open>DataError\<close>, with the library's messages.
  \<open>List\<close> collects the errors of all its items by index; \<open>Or\<close> returns the
  first alternative that accepts; \<open>Null\<close> accepts \<open>None\<close> only; \<open>AnyDict\<close>
  accepts any dict as it is. String lengths are counted in characters of the model's
  strings.
\<close>

fun check :: "pylib \<Rightarrow> trafaret \<Rightarrow> pyval \<Rightarrow> data_error + pyval" where
  "check rt (t_Enum variants) v =
     (case v of
        PyStr s \<Rightarrow>
          if s \<in> set variants then Inr v else Inl (Msg ''value doesn't match any variant'')
      | _ \<Rightarrow> Inl (Msg ''value doesn't match any variant''))"
| "check rt (t_String max_length) v =
     (case v of
        PyStr s \<Rightarrow>
          if s = [] then Inl (Msg ''blank value is not allowed'')
          else (case max_length of
                  None \<Rightarrow> Inr v
                | Some n \<Rightarrow>
                    if n < length s
                    then Inl (Msg (''String is longer than '' @ str_nat n @ '' characters''))
                    else Inr v)
      | _ \<Rightarrow> Inl (Msg ''value is not a string''))"
| "check rt t_Int v =
     (case v of
        PyInt n \<Rightarrow> Inr v
      | PyBool b \<Rightarrow> Inr v
      | PyFloat x \<Rightarrow>
          if of_int \<lfloor>x\<rfloor> = x then Inr (PyInt \<lfloor>x\<rfloor>) else Inl (Msg ''value is not int'')
      | PyStr s \<Rightarrow>
          (case py_int rt s of
             Some n \<Rightarrow> Inr (PyInt n)
           | None \<Rightarrow> Inl (Msg ''value can't be converted to int''))
      | _ \<Rightarrow> Inl (Msg ''value is not int''))"
| "check rt t_Float v =
     (case v of
        PyFloat x \<Rightarrow> Inr v
      | PyNone \<Rightarrow> Inl (Msg ''value is not float'')
      | PyList xs \<Rightarrow> Inl (Msg ''value is not float'')
      | PyDict d \<Rightarrow> Inl (Msg ''value is not float'')
      | PyDateTime i \<Rightarrow> Inl (Msg ''value is not float'')
      | PyObject k \<Rightarrow> Inl (Msg ''value is not float'')
      | _ \<Rightarrow>
          (case py_float rt v of
             Some x \<Rightarrow> Inr (PyFloat x)
           | None \<Rightarrow> Inl (Msg ''value can't be converted to float'')))"
| "check rt rfc_3339_DateTime v =
     (case v of PyDateTime i \<Rightarrow> Inr v | _ \<Rightarrow> rfc3339_parse rt v)"
| "check rt t_StrBool v =
     (case str_bool rt v of
        Some b \<Rightarrow> Inr (PyBool b)
      | None \<Rightarrow> Inl (Msg ''value can't be converted to Bool''))"
| "check rt t_Null v =
     (case v of PyNone \<Rightarrow> Inr PyNone | _ \<Rightarrow> Inl (Msg ''value should be None''))"
| "check rt AnyDict v =
     (case v of PyDict d \<Rightarrow> Inr v | _ \<Rightarrow> Inl (Msg ''value is not a dict''))"
| "check rt (t_List item_trafaret) v =
     (case v of
        PyList xs \<Rightarrow>
          (let rs = map (check rt item_trafaret) xs
           in if list_errors 0 rs = [] then Inr (PyList (list_values rs))
              else Inl (Errors (list_errors 0 rs)))
      | _ \<Rightarrow> Inl (Msg ''value is not a list''))"
| "check rt (t_Or a b) v =
     (case check rt a v of
        Inr w \<Rightarrow> Inr w
      | Inl e1 \<Rightarrow>
          (case check rt b v of
             Inr w \<Rightarrow> Inr w
           | Inl e2 \<Rightarrow> Inl (Errors [(Index 0, e1), (Index 1, e2)])))"

text \<open>\<open>build_key\<close>: a \<open>Key\<close> with a default when the default is not \<open>None\<close>.\<close>

record key =
  key_name :: string
  key_default :: "pyval option"

definition build_key :: "string \<Rightarrow> pyval option \<Rightarrow> key" where
  "build_key n dflt = \<lparr>key_name = n, key_default = dflt\<rparr>"

definition build_field :: "column \<Rightarrow> error + trafaret" where
  "build_field column =
     (case build_trafaret (type column) of
        Inl e \<Rightarrow> Inl e
      | Inr field \<Rightarrow> Inr (if nullable column then t_Or field t_Null else field))"

text \<open>
  A \<open>t.Dict\<close> as \<open>validator_from_table\<close> builds it: its keys with their trafarets,
  in order, and the names given to \<open>ignore_extra\<close>.
\<close>

datatype dict_trafaret =
  Dict (dict_keys: "(key \<times> trafaret) list") (ignore: "string list")

text \<open>
  The loop of \<open>validator_from_table\<close> over \<open>table.c.items()\<close>. The default
  handed to \<open>build_key\<close> is the \<open>DefaultClause\<close> object itself.
\<close>

definition as_object :: "default_clause \<Rightarrow> pyval" where
  "as_object d = PyObject ''DefaultClause''"

fun table_fields :: "(string \<times> column) list \<Rightarrow> string \<Rightarrow> bool \<Rightarrow> error + (key \<times> trafaret) list" where
  "table_fields [] primary_key skip_pk = Inr []"
| "table_fields ((n, column) # rest) primary_key skip_pk =
     (if skip_pk \<and> name column = primary_key then table_fields rest primary_key skip_pk
      else (case build_field column of
              Inl e \<Rightarrow> Inl e
            | Inr traf_field \<Rightarrow>
                (case table_fields rest primary_key skip_pk of
                   Inl e \<Rightarrow> Inl e
                 | Inr kts \<Rightarrow>
                     Inr ((build_key n (map_option as_object (server_default column)),
                           traf_field) # kts))))"

definition validator_from_table :: "table \<Rightarrow> string \<Rightarrow> bool \<Rightarrow> error + dict_trafaret" where
  "validator_from_table table primary_key skip_pk =
     (case table_fields (c table) primary_key skip_pk of
        Inl e \<Rightarrow> Inl e
      | Inr kts \<Rightarrow> Inr (Dict kts [primary_key]))"

text \<open>
  Checking a payload against a \<open>t.Dict\<close>. Each key yields its name with the checked
  value (the payload's, or the default when the name is absent and a default is set)
  or with the error \<open>is required\<close>. Every payload name that no key touched and that
  is not ignored is an error. The errors are raised together.
\<close>

definition key_result :: "pylib \<Rightarrow> (string \<times> pyval) list \<Rightarrow> key \<times> trafaret \<Rightarrow> string \<times> (data_error + pyval)" where
  "key_result rt data kt =
     (case kt of (k, trafaret) \<Rightarrow>
        (case map_of data (key_name k) of
           Some v \<Rightarrow> (key_name k, check rt trafaret v)
         | None \<Rightarrow>
             (case key_default k of
                Some d \<Rightarrow> (key_name k, check rt trafaret d)
              | None \<Rightarrow> (key_name k, Inl (Msg ''is required'')))))"

fun key_errors :: "(string \<times> (data_error + pyval)) list \<Rightarrow> (ekey \<times> data_error) list" where
  "key_errors [] = []"
| "key_errors ((n, Inl e) # rs) = (Name n, e) # key_errors rs"
| "key_errors ((n, Inr v) # rs) = key_errors rs"

fun key_values :: "(string \<times> (data_error + pyval)) list \<Rightarrow> (string \<times> pyval) list" where
  "key_values [] = []"
| "key_values ((n, Inl e) # rs) = key_values rs"
| "key_values ((n, Inr v) # rs) = (n, v) # key_values rs"

definition extra_errors :: "string list \<Rightarrow> string list \<Rightarrow> (string \<times> pyval) list \<Rightarrow> (ekey \<times> data_error) list" where
  "extra_errors touched_names ignored data =
     map (\<lambda>k. (Name k, Msg (k @ '' is not allowed key'')))
       (filter (\<lambda>k. k \<notin> set touched_names \<and> k \<notin> set ignored) (map fst data))"

definition check_dict :: "pylib \<Rightarrow> dict_trafaret \<Rightarrow> pyval \<Rightarrow> data_error + pyval" where
  "check_dict rt d v =
     (case v of
        PyDict data \<Rightarrow>
          (let rs = map (key_result rt data) (dict_keys d);
               errors = key_errors rs @ extra_errors (map fst rs) (ignore d) data
           in if errors = [] then Inr (PyDict (key_values rs)) else Inl (Errors errors))
      | _ \<Rightarrow> Inl (Msg ''value is not a dict''))"

section \<open>Filters\<close>

definition to_column :: "string \<Rightarrow> table \<Rightarrow> error + column" where
  "to_column column_name table =
     (case map_of (c table) column_name of
        None \<Rightarrow> Inl (KeyError column_name)
      | Some col \<Rightarrow> Inr col)"

text \<open>
  The SQL expressions the comparators build: a column, an operator and the operand
  (\<open>like\<close> appends \<open>%\<close> to its operand; \<open>in_\<close> takes a list).
\<close>

datatype sql_op = Op_in | Op_like | Op_eq | Op_ne | Op_le | Op_lt | Op_ge | Op_gt

datatype clause = BinaryExpression column sql_op pyval

text \<open>
  The comparison \<open>_operator.eq(column, v)\<close> and the like, as SQLAlchemy builds it:
  with \<open>None\<close>, \<open>True\<close> or \<open>False\<close> as the operand only equality and
  inequality are taken, and an ordering raises \<open>ArgumentError\<close>. (An equality with
  \<open>None\<close> is kept as it is written; SQLAlchemy renders it as \<open>IS NULL\<close>.)
\<close>

definition compare :: "sql_op \<Rightarrow> column \<Rightarrow> pyval \<Rightarrow> error + clause" where
  "compare operator col v =
     (if operator \<in> {Op_le, Op_lt, Op_ge, Op_gt}
      then (case v of
              PyNone \<Rightarrow> Inl ArgumentError
            | PyBool b \<Rightarrow> Inl ArgumentError
            | _ \<Rightarrow> Inr (BinaryExpression col operator v))
      else Inr (BinaryExpression col operator v))"

text \<open>
  \<open>op\<close> returns the comparator for an operation name. \<open>v + '%'\<close> raises
  \<open>TypeError\<close> unless \<open>v\<close> is a string, and \<open>column.in_(v)\<close> rejects an
  operand that is not a list.
\<close>

definition op :: "string \<Rightarrow> column \<Rightarrow> error + (column \<Rightarrow> pyval \<Rightarrow> error + clause)" where
  "op operation column =
     (if operation = ''in'' then
        Inr (\<lambda>col v. case v of
                        PyList vs \<Rightarrow> Inr (BinaryExpression col Op_in v)
                      | _ \<Rightarrow> Inl ArgumentError)
      else if operation = ''like'' then
        Inr (\<lambda>col v. case v of
                        PyStr s \<Rightarrow> Inr (BinaryExpression col Op_like (PyStr (s @ ''%'')))
                      | _ \<Rightarrow> Inl TypeError)
      else if operation = ''eq'' then Inr (compare Op_eq)
      else if operation = ''ne'' then Inr (compare Op_ne)
      else if operation = ''le'' then Inr (compare Op_le)
      else if operation = ''lt'' then Inr (compare Op_lt)
      else if operation = ''ge'' then Inr (compare Op_ge)
      else if operation = ''gt'' then Inr (compare Op_gt)
      else Inl (ValueError operation))"

text \<open>
  \<open>check_value\<close> calls \<open>trafaret.check_and_return\<close>. Among the trafarets that
  \<open>build_trafaret\<close> makes, \<open>String\<close>, \<open>Int\<close>, \<open>Float\<close>, \<open>StrBool\<close> and the
  RFC 3339 \<open>DateTime\<close> define this method; \<open>Enum\<close>, \<open>Or\<close> and \<open>List\<close>
  (like \<open>Null\<close> and \<open>Dict\<close>) define \<open>check_value\<close> or \<open>transform\<close> instead,
  so the call raises \<open>AttributeError\<close> on them.
\<close>

fun has_check_and_return :: "trafaret \<Rightarrow> bool" where
  "has_check_and_return (t_String max_length) = True"
| "has_check_and_return t_Int = True"
| "has_check_and_return t_Float = True"
| "has_check_and_return rfc_3339_DateTime = True"
| "has_check_and_return t_StrBool = True"
| "has_check_and_return trafaret = False"

text \<open>
  What a call \<open>trafaret.check_and_return(v)\<close> ends in: the checked value, a
  \<open>DataError\<close> (to the right), or another exception (to the left).
\<close>

definition check_and_return :: "pylib \<Rightarrow> trafaret \<Rightarrow> pyval \<Rightarrow> (error + data_error) + pyval" where
  "check_and_return rt trafaret v =
     (if \<not> has_check_and_return trafaret then Inl (Inl AttributeError)
      else (case check rt trafaret v of
              Inl exc \<Rightarrow> Inl (Inr exc)
            | Inr w \<Rightarrow> Inr w))"

text \<open>The list comprehension over a list value: it stops at the first call that raises.\<close>

fun check_each :: "pylib \<Rightarrow> trafaret \<Rightarrow> pyval list \<Rightarrow> (error + data_error) + pyval list" where
  "check_each rt trafaret [] = Inr []"
| "check_each rt trafaret (v # vs) =
     (case check_and_return rt trafaret v of
        Inl e \<Rightarrow> Inl e
      | Inr w \<Rightarrow>
          (case check_each rt trafaret vs of
             Inl e \<Rightarrow> Inl e
           | Inr ws \<Rightarrow> Inr (w # ws)))"

text \<open>
  The handler \<open>raise JsonValidaitonError(**exc.as_dict())\<close>. \<open>as_dict()\<close> is the
  message itself, a string, for a \<open>DataError\<close> that is a bare message, and a dict by
  the error's keys otherwise. Unpacking as keyword arguments what is not a mapping with
  string keys is a \<open>TypeError\<close>; only errors by field name reach
  \<open>JsonValidaitonError\<close>.
\<close>

fun is_name :: "ekey \<Rightarrow> bool" where
  "is_name (Name n) = True"
| "is_name (Index i) = False"

fun raise_JsonValidaitonError :: "data_error \<Rightarrow> error" where
  "raise_JsonValidaitonError (Msg m) = TypeError"
| "raise_JsonValidaitonError (Errors es) =
     (if list_all (\<lambda>e. is_name (fst e)) es then JsonValidaitonError (Errors es)
      else TypeError)"

text \<open>An exception that is no \<open>DataError\<close> passes the handler.\<close>

definition except_DataError :: "error + data_error \<Rightarrow> error" where
  "except_DataError raised =
     (case raised of Inl e \<Rightarrow> e | Inr exc \<Rightarrow> raise_JsonValidaitonError exc)"

definition check_value :: "pylib \<Rightarrow> column \<Rightarrow> pyval \<Rightarrow> error + pyval" where
  "check_value rt column v =
     (case build_trafaret (type column) of
        Inl e \<Rightarrow> Inl e
      | Inr trafaret \<Rightarrow>
          (case v of
             PyList vs \<Rightarrow>
               (case check_each rt trafaret vs of
                  Inl raised \<Rightarrow> Inl (except_DataError raised)
                | Inr ws \<Rightarrow> Inr (PyList ws))
           | _ \<Rightarrow>
               (case check_and_return rt trafaret v of
                  Inl raised \<Rightarrow> Inl (except_DataError raised)
                | Inr w \<Rightarrow> Inr w)))"

text \<open>
  The query under construction: the table selected from and the criteria added by
  \<open>where\<close>, which are conjoined.
\<close>

record query =
  from_table :: table
  whereclause :: "clause list"

definition select :: "table \<Rightarrow> query" where
  "select table = \<lparr>from_table = table, whereclause = []\<rparr>"

definition where_clause :: "query \<Rightarrow> clause \<Rightarrow> query" where
  "where_clause q f = q\<lparr>whereclause := whereclause q @ [f]\<rparr>"

text \<open>The inner loop of \<open>create_filter\<close>, over \<open>operation.items()\<close>.\<close>

fun apply_operation :: "pylib \<Rightarrow> column \<Rightarrow> (string \<times> pyval) list \<Rightarrow> query \<Rightarrow> error + query" where
  "apply_operation rt column [] q = Inr q"
| "apply_operation rt column ((op_name, v) # rest) q =
     (case check_comparator column op_name of
        Inl e \<Rightarrow> Inl e
      | Inr u \<Rightarrow>
          (case check_value rt column v of
             Inl e \<Rightarrow> Inl e
           | Inr w \<Rightarrow>
               (case op op_name column of
                  Inl e \<Rightarrow> Inl e
                | Inr do_compare \<Rightarrow>
                    (case do_compare column w of
                       Inl e \<Rightarrow> Inl e
                     | Inr f \<Rightarrow> apply_operation rt column rest (where_clause q f)))))"

text \<open>
  A value that is not a dict stands for \<open>{'eq': value}\<close>; a filter request is the
  list of its items, in iteration order.
\<close>

definition operation_items :: "pyval \<Rightarrow> (string \<times> pyval) list" where
  "operation_items operation =
     (case operation of PyDict d \<Rightarrow> d | _ \<Rightarrow> [(''eq'', operation)])"

fun filter_loop :: "pylib \<Rightarrow> table \<Rightarrow> (string \<times> pyval) list \<Rightarrow> query \<Rightarrow> error + query" where
  "filter_loop rt table [] q = Inr q"
| "filter_loop rt table ((column_name, operation) # rest) q =
     (case to_column column_name table of
        Inl e \<Rightarrow> Inl e
      | Inr column \<Rightarrow>
          (case apply_operation rt column (operation_items operation) q of
             Inl e \<Rightarrow> Inl e
           | Inr q' \<Rightarrow> filter_loop rt table rest q'))"

definition create_filter :: "pylib \<Rightarrow> table \<Rightarrow> (string \<times> pyval) list \<Rightarrow> error + query" where
  "create_filter rt table flt = filter_loop rt table flt (select table)"

section \<open>List queries\<close>

text \<open>
  The parsed list query: the keys \<open>validate_query\<close> reads. \<open>_validate_query\<close>
  (from \<open>..utils\<close>) parses the raw query; it is a parameter here, and may fail.
\<close>

record list_query =
  sortField :: "string option"
  filters :: "(string \<times> pyval) list option"

definition validate_query :: "('raw \<Rightarrow> error + list_query) \<Rightarrow> 'raw \<Rightarrow> table \<Rightarrow> error + list_query" where
  "validate_query parse raw table =
     (let possible_columns = set (map fst (c table)) in
      case parse raw of
        Inl e \<Rightarrow> Inl e
      | Inr q \<Rightarrow>
          (let sort_field = sortField q;
               flts = (case filters q of None \<Rightarrow> [] | Some f \<Rightarrow> f);
               columns = map fst flts @ (case sort_field of None \<Rightarrow> [] | Some s \<Rightarrow> [s]);
               not_valid = set columns - possible_columns
           in if not_valid \<noteq> {} then Inl (JsonValidaitonError_columns not_valid)
              else Inr q))"

section \<open>Resource registration\<close>

text \<open>
  The fields a resource omits from its list view, as \<open>setup_resources\<close> computes
  them: \<open>m.fields.keys() - r["display"]\<close>, the empty tuple when the resource has no
  \<open>display\<close> entry, and a \<open>ValueError\<close> when an omitted field is not a field of
  the model.
\<close>

definition omit_fields :: "(string \<times> 'f) list \<Rightarrow> string list option \<Rightarrow> error + string set" where
  "omit_fields m_fields display =
     (case display of
        None \<Rightarrow> Inr {}
      | Some d \<Rightarrow>
          (let omit = set (map fst m_fields) - set d
           in if \<not> (\<forall>f \<in> omit. f \<in> set (map fst m_fields))
              then Inl (ValueError ''list_omit includes non-existent field'')
              else Inr omit))"

text \<open>
  A resource model as \<open>setup_resources\<close> reads it (its name, fields, inputs with
  their \<open>props\<close>, and representation field), an entry of \<open>schema["resources"]\<close>
  with its optional keys, and the state stored for a resource.
\<close>

record 'f model =
  model_name :: string
  model_fields :: "(string \<times> 'f) list"
  inputs :: "(string \<times> (string \<times> pyval) list) list"
  repr_field :: string

record 'f resource =
  model :: "'f model"
  display :: "string list option"
  repr :: "string option"
  label :: "string option"
  icon :: "string option"
  bulk_update :: "(string \<times> pyval) list option"

record 'f resource_state =
  state_fields :: "(string \<times> 'f) list"
  state_inputs :: "(string \<times> (string \<times> pyval) list) list"
  list_omit :: "string set"
  state_repr :: string
  state_label :: "string option"
  state_icon :: "string option"
  state_bulk_update :: "(string \<times> pyval) list"

text \<open>\<open>d[k] = v\<close> on a dict: the value of an existing key is replaced, a new key is added last.\<close>

definition set_item :: "'k \<Rightarrow> 'v \<Rightarrow> ('k \<times> 'v) list \<Rightarrow> ('k \<times> 'v) list" where
  "set_item k v d =
     (if k \<in> fst ` set d then map (\<lambda>(k', v'). if k' = k then (k', v) else (k', v')) d
      else d @ [(k, v)])"

text \<open>
  The body of the loop of \<open>setup_resources\<close> for one resource: the omitted fields,
  the inputs with \<open>alwaysOn\<close> set on those that are not omitted, and the state.
\<close>

definition resource_state :: "'f resource \<Rightarrow> error + 'f resource_state" where
  "resource_state r =
     (let m = model r in
      case omit_fields (model_fields m) (display r) of
        Inl e \<Rightarrow> Inl e
      | Inr omit \<Rightarrow>
          Inr \<lparr>state_fields = model_fields m,
               state_inputs =
                 map (\<lambda>(k, props).
                        if k \<notin> omit then (k, set_item ''alwaysOn'' (PyStr ''alwaysOn'') props)
                        else (k, props))
                   (inputs m),
               list_omit = omit,
               state_repr = (case repr r of None \<Rightarrow> repr_field m | Some f \<Rightarrow> f),
               state_label = label r,
               state_icon = icon r,
               state_bulk_update = (case bulk_update r of None \<Rightarrow> [] | Some b \<Rightarrow> b)\<rparr>)"

text \<open>
  The loop over \<open>schema["resources"]\<close>, on \<open>admin["state"]["resources"]\<close>: the
  state of each resource is stored under the model's name; an exception ends the loop.
\<close>

fun setup_resources :: "'f resource list \<Rightarrow> (string \<rightharpoonup> 'f resource_state) \<Rightarrow> error + (string \<rightharpoonup> 'f resource_state)" where
  "setup_resources [] resources = Inr resources"
| "setup_resources (r # rs) resources =
     (case resource_state r of
        Inl e \<Rightarrow> Inl e
      | Inr state \<Rightarrow> setup_resources rs (resources(model_name (model r) \<mapsto> state)))"

section \<open>Notions the properties are stated with\<close>

text \<open>The operators that the operator check accepts for a column.\<close>

definition accepted_operators :: "column \<Rightarrow> string set" where
  "accepted_operators column = {p. check_comparator column p = Inr ()}"

subsection \<open>Example tables\<close>

definition age_column :: column where
  "age_column =
     \<lparr>name = ''age'', type = SaType Integer [] None None, nullable = True,
      server_default = None\<rparr>"

definition created_column :: column where
  "created_column =
     \<lparr>name = ''created'', type = SaType DateTime [] None None, nullable = False,
      server_default = None\<rparr>"

definition born_column :: column where
  "born_column =
     \<lparr>name = ''born'', type = SaType Date [] None None, nullable = True,
      server_default = None\<rparr>"

definition name_column :: column where
  "name_column =
     \<lparr>name = ''name'', type = SaType String [] (Some 50) None, nullable = False,
      server_default = None\<rparr>"


definition users :: table where
  "users = \<lparr>table_name = ''users'', c = [(''name'', name_column), (''age'', age_column)]\<rparr>"

text \<open>The table of \<open>Dummy2Model\<close> in the tests: an integer primary key and an optional string.\<close>

definition id_column :: column where
  "id_column =
     \<lparr>name = ''id'', type = SaType Integer [] None None, nullable = False,
      server_default = None\<rparr>"

definition msg_column :: column where
  "msg_column =
     \<lparr>name = ''msg'', type = SaType String [] None None, nullable = True,
      server_default = None\<rparr>"

definition dummy2 :: table where
  "dummy2 = \<lparr>table_name = ''dummy2'', c = [(''id'', id_column), (''msg'', msg_column)]\<rparr>"

text \<open>A resource for that table whose \<open>display\<close> names a field the model does not have.\<close>

definition dummy2_resource :: "unit resource" where
  "dummy2_resource =
     \<lparr>model = \<lparr>model_name = ''dummy2'', model_fields = [(''id'', ()), (''msg'', ())],
                inputs = [(''id'', []), (''msg'', [])], repr_field = ''id''\<rparr>,
      display = Some ([''id''] @ [''ghost'']), repr = None, label = None, icon = None,
      bulk_update = None\<rparr>"

subsection \<open>Filter entries\<close>






subsection \<open>Tables and list queries\<close>

text \<open>
  Every column is stored under its own name (SQLAlchemy's default; a column can be given
  another key).
\<close>

definition keys_are_names :: "table \<Rightarrow> bool" where
  "keys_are_names table = list_all (\<lambda>(n, column). n = name column) (c table)"

text \<open>The column names a parsed list query refers to: its filter keys and its sort field.\<close>

definition referenced_columns :: "list_query \<Rightarrow> string set" where
  "referenced_columns q =
     (case filters q of None \<Rightarrow> {} | Some f \<Rightarrow> fst ` set f)
     \<union> (case sortField q of None \<Rightarrow> {} | Some s \<Rightarrow> {s})"


section \<open>Type classification\<close>

lemma issubclass_Text_String: "issubclass k Text \<Longrightarrow> issubclass k String"
  by (induction k) auto

text \<open>
  C3. The claim asks that a text column be classified as \<open>text\<close>. In
  \<open>build_type_mapper\<close> the \<open>String\<close> test stands before the \<open>Text\<close> test, and
  every \<open>Text\<close> object is a \<open>String\<close> object: a text column is classified as
  \<open>string\<close>, and no type at all is classified as \<open>text\<close>. \<open>build_trafaret\<close>
  has the two tests in the other order, as its comment asks.
\<close>

theorem c3_text_classified_as_string:
  "build_type_mapper (SaType Text ens len item) = Inr ''string''
   \<and> build_trafaret (SaType Text ens len item) = Inr (t_String None)
   \<and> build_type_mapper sa_type \<noteq> Inr ''text''"
  by (auto simp: build_type_mapper_def isinstance_def issubclass_Text_String)

section \<open>The operator table\<close>

lemma accepted_operators_eq:
  "accepted_operators column =
     (case comparator_map (class_of (type column)) of None \<Rightarrow> {} | Some ops \<Rightarrow> set ops)"
  by (auto simp: accepted_operators_def check_comparator_def split: option.splits if_splits)

lemma comparator_map_None:
  "k \<notin> {String, Text, Integer, Float, Date} \<Longrightarrow> comparator_map k = None"
  by (cases k) auto

text \<open>
  C1, as the claim states it, fails for datetime columns: \<open>comparator_map\<close> has no
  entry for \<open>DateTime\<close>, so the operator check rejects \<open>eq\<close> on such a column.
\<close>

theorem c1_datetime_counterexample:
  "check_comparator created_column ''eq'' = Inl (Exception (SaType DateTime [] None None))"
  by (simp add: check_comparator_def created_column_def)

text \<open>
  C1, amended. The operator check looks the exact class of the column's type up:
  \<open>String\<close> and \<open>Text\<close> columns accept exactly eq, ne, like; \<open>Integer\<close>
  columns exactly eq, ne, lt, le, gt, ge, in; \<open>Float\<close> and \<open>Date\<close> columns
  exactly eq, ne, lt, le, gt, ge; a column of any other class (datetime, boolean, enum,
  JSON, array, and every class derived from one of the five) accepts no operator.
\<close>

theorem c1_operator_table:
  "(class_of (type column) \<in> {String, Text} \<longrightarrow>
      accepted_operators column = {''eq'', ''ne'', ''like''})
   \<and> (class_of (type column) = Integer \<longrightarrow>
      accepted_operators column = {''eq'', ''ne'', ''lt'', ''le'', ''gt'', ''ge'', ''in''})
   \<and> (class_of (type column) \<in> {Float, Date} \<longrightarrow>
      accepted_operators column = {''eq'', ''ne'', ''lt'', ''le'', ''gt'', ''ge''})
   \<and> (class_of (type column) \<notin> {String, Text, Integer, Float, Date} \<longrightarrow>
      accepted_operators column = {})"
  by (auto simp: accepted_operators_eq comparator_map_None)

theorem c1_operator_table_witness:
  "accepted_operators name_column = {''eq'', ''ne'', ''like''}
   \<and> accepted_operators age_column = {''eq'', ''ne'', ''lt'', ''le'', ''gt'', ''ge'', ''in''}
   \<and> accepted_operators born_column = {''eq'', ''ne'', ''lt'', ''le'', ''gt'', ''ge''}
   \<and> accepted_operators created_column = {}"
  using c1_operator_table [of name_column] c1_operator_table [of age_column]
    c1_operator_table [of born_column] c1_operator_table [of created_column]
  by (simp add: name_column_def age_column_def born_column_def created_column_def)

section \<open>Filter compilation\<close>

lemma apply_operation_append:
  "apply_operation rt column (xs @ ys) q =
     (case apply_operation rt column xs q of
        Inl e \<Rightarrow> Inl e
      | Inr q' \<Rightarrow> apply_operation rt column ys q')"
  by (induction xs arbitrary: q) (auto split: sum.splits)

lemma filter_loop_append:
  "filter_loop rt table (xs @ ys) q =
     (case filter_loop rt table xs q of
        Inl e \<Rightarrow> Inl e
      | Inr q' \<Rightarrow> filter_loop rt table ys q')"
  by (induction xs arbitrary: q) (auto split: sum.splits)











lemma operation_items_shorthand:
  "\<forall>d. v \<noteq> PyDict d \<Longrightarrow> operation_items v = operation_items (PyDict [(''eq'', v)])"
  by (cases v) (auto simp: operation_items_def)

text \<open>
  C5. For a value \<open>v\<close> that is not itself a dict (a dict is read as a map of
  operators, never as a shorthand), compiling a request with the entry \<open>c: v\<close>
  gives the same result, query or error, as compiling the request with
  \<open>c: {"eq": v}\<close> in its place.
\<close>

theorem c5_shorthand_is_eq:
  assumes "\<forall>d. v \<noteq> PyDict d"
  shows "create_filter rt table (pre @ (column_name, v) # post)
       = create_filter rt table (pre @ (column_name, PyDict [(''eq'', v)]) # post)"
proof -
  have step: "filter_loop rt table ((column_name, v) # post) q
      = filter_loop rt table ((column_name, PyDict [(''eq'', v)]) # post) q" for q
    by (simp only: filter_loop.simps operation_items_shorthand [OF assms])
  show ?thesis
    by (simp only: create_filter_def filter_loop_append step)
qed

theorem c5_shorthand_is_eq_witness:
  "create_filter any_lib users [(''name'', PyStr ''Bob'')]
     = create_filter any_lib users [(''name'', PyDict [(''eq'', PyStr ''Bob'')])]
   \<and> create_filter any_lib users [(''name'', PyStr ''Bob'')]
     = Inr \<lparr>from_table = users,
            whereclause = [BinaryExpression name_column Op_eq (PyStr ''Bob'')]\<rparr>"
  using c5_shorthand_is_eq [of "PyStr ''Bob''" any_lib users "[]" "''name''" "[]"]
  by (simp add: create_filter_def select_def users_def to_column_def operation_items_def
      check_comparator_def check_value_def check_and_return_def op_def compare_def
      where_clause_def name_column_def)

lemma filter_loop_unknown:
  "column_name \<in> fst ` set flt \<Longrightarrow> column_name \<notin> fst ` set (c table) \<Longrightarrow>
     \<exists>e. filter_loop rt table flt q = Inl e"
proof (induction flt arbitrary: q)
  case Nil
  then show ?case by simp
next
  case (Cons a flt)
  obtain n operation where a: "a = (n, operation)" by (cases a)
  show ?case
  proof (cases "n = column_name")
    case True
    with Cons.prems(2) have "map_of (c table) n = None"
      by (simp add: map_of_eq_None_iff)
    then show ?thesis using a by (simp add: to_column_def)
  next
    case False
    with Cons.prems a have "column_name \<in> fst ` set flt" by auto
    from Cons.IH [OF this Cons.prems(2)] show ?thesis using a
      by (auto split: sum.splits)
  qed
qed

text \<open>
  C6, as the claim states it, fails when an entry before the unknown column fails its
  own check: the request below names the unknown \<open>ghost_column\<close>, and compilation
  fails with the operator error of the \<open>age\<close> entry, not with an error that names
  \<open>ghost_column\<close>.
\<close>

theorem c6_earlier_failure_counterexample:
  "create_filter any_lib users
     [(''age'', PyDict [(''like'', PyStr ''4'')]), (''ghost_column'', PyInt 1)]
   = Inl (Exception (SaType Integer [] None None))"
  by (simp add: create_filter_def select_def users_def to_column_def operation_items_def
      check_comparator_def age_column_def name_column_def)

text \<open>
  C6, amended. A request that refers to a column the table does not have never
  compiles. When the entries before the first such column compile, the error is the
  \<open>KeyError\<close> of the column lookup, which carries the column's name; when they fail,
  the error is theirs, whatever follows them.
\<close>

theorem c6_unknown_column:
  "(column_name \<in> fst ` set flt \<and> column_name \<notin> fst ` set (c table) \<longrightarrow>
      (\<exists>e. create_filter rt table flt = Inl e))
   \<and> (create_filter rt table pre = Inr q \<and> column_name \<notin> fst ` set (c table) \<longrightarrow>
      create_filter rt table (pre @ (column_name, v) # post) = Inl (KeyError column_name))
   \<and> (create_filter rt table pre = Inl e \<longrightarrow> create_filter rt table (pre @ post) = Inl e)"
proof (intro conjI impI)
  assume "column_name \<in> fst ` set flt \<and> column_name \<notin> fst ` set (c table)"
  then show "\<exists>e. create_filter rt table flt = Inl e"
    using filter_loop_unknown [of column_name flt table rt "select table"]
    by (simp add: create_filter_def)
next
  assume a: "create_filter rt table pre = Inr q \<and> column_name \<notin> fst ` set (c table)"
  then have "map_of (c table) column_name = None" by (simp add: map_of_eq_None_iff)
  then show "create_filter rt table (pre @ (column_name, v) # post) = Inl (KeyError column_name)"
    using a by (simp add: create_filter_def filter_loop_append to_column_def)
next
  assume "create_filter rt table pre = Inl e"
  then show "create_filter rt table (pre @ post) = Inl e"
    by (simp add: create_filter_def filter_loop_append)
qed

theorem c6_unknown_column_witness:
  "create_filter any_lib users [(''ghost_column'', PyInt 1)] = Inl (KeyError ''ghost_column'')
   \<and> create_filter any_lib users
        ([(''age'', PyDict [(''like'', PyStr ''4'')])] @ [(''ghost_column'', PyInt 1)])
      = Inl (Exception (SaType Integer [] None None))
   \<and> (\<exists>e. create_filter any_lib users
             [(''age'', PyDict [(''like'', PyStr ''4'')]), (''ghost_column'', PyInt 1)] = Inl e)"
proof -
  have first: "create_filter any_lib users [(''age'', PyDict [(''like'', PyStr ''4'')])]
      = Inl (Exception (SaType Integer [] None None))"
    by (simp add: create_filter_def select_def users_def to_column_def operation_items_def
        check_comparator_def age_column_def name_column_def)
  from first
    c6_unknown_column [of "''ghost_column''" "[]" users any_lib "[]"
      "\<lparr>from_table = users, whereclause = []\<rparr>" "PyInt 1" "[]"]
    c6_unknown_column [of "''ghost_column''"
      "[(''age'', PyDict [(''like'', PyStr ''4'')]), (''ghost_column'', PyInt 1)]" users any_lib
      "[(''age'', PyDict [(''like'', PyStr ''4'')])]" _ _ "[(''ghost_column'', PyInt 1)]"
      "Exception (SaType Integer [] None None)"]
  show ?thesis
    by (simp add: create_filter_def select_def users_def)
qed

lemma check_each_first_failure:
  "has_check_and_return trafaret \<Longrightarrow> \<forall>x \<in> set vs. \<exists>y. check rt trafaret x = Inr y \<Longrightarrow>
   check rt trafaret v = Inl exc \<Longrightarrow>
     check_each rt trafaret (vs @ v # rest) = Inl (Inr exc)"
  by (induction vs) (auto simp: check_and_return_def split: sum.splits)

text \<open>
  C8, as the claim states it, fails: in the request below both values fail validation,
  each with a \<open>DataError\<close> of its own, and the request ends in the same exception as
  the request with the first of them alone. Nothing collects the two failures, and the
  exception is no validation error that reports them.
\<close>

theorem c8_second_failure_unreported_counterexample:
  "check any_lib (t_String (Some 50)) (PyInt 5) = Inl (Msg ''value is not a string'')
   \<and> check any_lib t_Int PyNone = Inl (Msg ''value is not int'')
   \<and> create_filter any_lib users [(''name'', PyInt 5), (''age'', PyNone)] = Inl TypeError
   \<and> create_filter any_lib users [(''name'', PyInt 5)] = Inl TypeError"
  by (simp add: create_filter_def select_def users_def to_column_def operation_items_def
      check_comparator_def check_value_def check_and_return_def except_DataError_def
      age_column_def name_column_def)

text \<open>
  C8, amended. Value validation stops at the first failure. In a list value, what is
  raised is what the handler raises from the \<open>DataError\<close> of the first element that
  fails, whatever follows it. In a request, once the entries up to some point fail, be
  it at an entry or at an operator of an entry, the operators and entries after it do
  not change the error.
\<close>

theorem c8_first_failure_only:
  "(build_trafaret (type column) = Inr trafaret \<and> has_check_and_return trafaret
      \<and> (\<forall>x \<in> set vs. \<exists>y. check rt trafaret x = Inr y)
      \<and> check rt trafaret v = Inl exc \<longrightarrow>
      check_value rt column (PyList (vs @ v # rest)) = Inl (raise_JsonValidaitonError exc))
   \<and> (create_filter rt table pre = Inl e \<longrightarrow> create_filter rt table (pre @ post) = Inl e)
   \<and> (create_filter rt table (pre @ [(column_name, PyDict ops)]) = Inl e \<longrightarrow>
      create_filter rt table (pre @ (column_name, PyDict (ops @ later)) # post) = Inl e)"
proof (intro conjI impI)
  assume "build_trafaret (type column) = Inr trafaret \<and> has_check_and_return trafaret
      \<and> (\<forall>x \<in> set vs. \<exists>y. check rt trafaret x = Inr y)
      \<and> check rt trafaret v = Inl exc"
  then show "check_value rt column (PyList (vs @ v # rest)) = Inl (raise_JsonValidaitonError exc)"
    by (simp add: check_value_def check_each_first_failure except_DataError_def)
next
  assume "create_filter rt table pre = Inl e"
  then show "create_filter rt table (pre @ post) = Inl e"
    by (simp add: create_filter_def filter_loop_append)
next
  assume "create_filter rt table (pre @ [(column_name, PyDict ops)]) = Inl e"
  then show "create_filter rt table (pre @ (column_name, PyDict (ops @ later)) # post) = Inl e"
    by (auto simp: create_filter_def filter_loop_append operation_items_def
        apply_operation_append split: sum.splits)
qed

theorem c8_first_failure_only_witness:
  "check_value any_lib age_column (PyList ([PyInt 1] @ PyNone # [PyList []])) = Inl TypeError
   \<and> create_filter any_lib users ([(''name'', PyInt 5)] @ [(''age'', PyNone)]) = Inl TypeError
   \<and> create_filter any_lib users
       ([] @ (''name'', PyDict ([(''eq'', PyInt 5)] @ [(''ne'', PyNone)])) # [(''age'', PyNone)])
     = Inl TypeError"
proof -
  have first: "create_filter any_lib users [(''name'', PyInt 5)] = Inl TypeError"
    "create_filter any_lib users ([] @ [(''name'', PyDict [(''eq'', PyInt 5)])]) = Inl TypeError"
    by (simp_all add: create_filter_def select_def users_def to_column_def operation_items_def
        check_comparator_def check_value_def check_and_return_def except_DataError_def
        age_column_def name_column_def)
  from first c8_first_failure_only [of age_column t_Int "[PyInt 1]" any_lib PyNone
      "Msg ''value is not int''" "[PyList []]" users "[(''name'', PyInt 5)]" TypeError
      "[(''age'', PyNone)]"]
    c8_first_failure_only [of age_column t_Int "[PyInt 1]" any_lib PyNone
      "Msg ''value is not int''" "[PyList []]" users "[]" TypeError
      "[(''age'', PyNone)]" "''name''" "[(''eq'', PyInt 5)]" "[(''ne'', PyNone)]"]
  show ?thesis
    by (simp add: age_column_def)
qed

section \<open>Nullable columns\<close>

lemma check_each_Inr_iff:
  "(check_each rt base xs = Inr ws)
     = ((xs = [] \<or> has_check_and_return base)
        \<and> list_all2 (\<lambda>x w. check rt base x = Inr w) xs ws)"
proof (induction xs arbitrary: ws)
  case Nil
  then show ?case by auto
next
  case (Cons x xs)
  show ?case
  proof (cases "has_check_and_return base")
    case False
    then show ?thesis by (simp add: check_and_return_def)
  next
    case True
    show ?thesis
    proof (cases "check rt base x")
      case (Inl e)
      then show ?thesis using True by (simp add: check_and_return_def list_all2_Cons1)
    next
      case (Inr w)
      then have "(check_each rt base (x # xs) = Inr ws)
          = (\<exists>ws'. check_each rt base xs = Inr ws' \<and> ws = w # ws')"
        using True by (auto simp: check_and_return_def split: sum.splits)
      also have "\<dots> = (\<exists>ws'. list_all2 (\<lambda>x w. check rt base x = Inr w) xs ws' \<and> ws = w # ws')"
        using True by (simp add: Cons.IH)
      also have "\<dots> = list_all2 (\<lambda>x w. check rt base x = Inr w) (x # xs) ws"
        using Inr by (auto simp: list_all2_Cons1)
      finally show ?thesis using True by simp
    qed
  qed
qed

lemma check_value_scalar_iff:
  "build_trafaret (type column) = Inr base \<Longrightarrow> \<forall>xs. x \<noteq> PyList xs \<Longrightarrow>
     (check_value rt column x = Inr w) = (has_check_and_return base \<and> check rt base x = Inr w)"
  by (cases x) (auto simp: check_value_def check_and_return_def split: sum.splits)

lemma check_value_list_iff:
  "build_trafaret (type column) = Inr base \<Longrightarrow>
     (check_value rt column (PyList xs) = Inr (PyList ws))
       = ((xs = [] \<or> has_check_and_return base)
          \<and> list_all2 (\<lambda>x w. check rt base x = Inr w) xs ws)"
  using check_each_Inr_iff [of rt base xs ws]
  by (auto simp: check_value_def split: sum.splits)

text \<open>
  C7, as the claim states it, fails for filter values: \<open>check_value\<close> validates with
  \<open>build_trafaret\<close>, not with \<open>build_field\<close>, so a null filter value on the
  nullable integer column \<open>age\<close> is rejected by \<open>Int\<close> and compilation fails.
\<close>

theorem c7_null_filter_value_counterexample:
  "nullable age_column
   \<and> build_field age_column = Inr (t_Or t_Int t_Null)
   \<and> check any_lib t_Int PyNone = Inl (Msg ''value is not int'')
   \<and> create_filter any_lib users [(''age'', PyNone)] = Inl TypeError"
  by (simp add: create_filter_def select_def users_def to_column_def operation_items_def
      check_comparator_def check_value_def check_and_return_def except_DataError_def
      build_field_def age_column_def name_column_def)

text \<open>
  C7, amended. The field validator that \<open>build_field\<close> derives from a nullable
  column accepts an explicit null and whatever the rule of the column's type accepts,
  with the same result. Filter compilation validates a value with the rule of the
  column's type alone, whatever the column's nullability: a value that is no list is
  accepted exactly when that rule has the method \<open>check_and_return\<close> and accepts
  it, and a list exactly when the rule accepts each element; so a null filter value
  is accepted only where the rule of the type accepts null.
\<close>

theorem c7_nullable_field:
  assumes "nullable column" and "build_field column = Inr field"
  shows "(\<exists>w. check rt field PyNone = Inr w)
    \<and> (\<forall>trafaret v w. build_trafaret (type column) = Inr trafaret \<and> check rt trafaret v = Inr w
          \<longrightarrow> check rt field v = Inr w)
    \<and> check_value rt column v = check_value rt (column\<lparr>nullable := False\<rparr>) v
    \<and> (\<exists>base. build_trafaret (type column) = Inr base \<and> field = t_Or base t_Null
          \<and> (\<forall>x w. (\<forall>xs. x \<noteq> PyList xs) \<longrightarrow>
                (check_value rt column x = Inr w)
                  = (has_check_and_return base \<and> check rt base x = Inr w))
          \<and> (\<forall>xs ws. (check_value rt column (PyList xs) = Inr (PyList ws))
                  = ((xs = [] \<or> has_check_and_return base)
                     \<and> list_all2 (\<lambda>x w. check rt base x = Inr w) xs ws)))"
proof -
  from assms obtain base where
    base: "build_trafaret (type column) = Inr base" and field: "field = t_Or base t_Null"
    by (auto simp: build_field_def split: sum.splits)
  have null: "\<exists>w. check rt field PyNone = Inr w"
    by (cases "check rt base PyNone") (simp_all add: field)
  have more: "\<forall>trafaret v w. build_trafaret (type column) = Inr trafaret \<and> check rt trafaret v = Inr w
          \<longrightarrow> check rt field v = Inr w"
    using base by (simp add: field)
  have same: "check_value rt column v = check_value rt (column\<lparr>nullable := False\<rparr>) v"
    by (simp add: check_value_def)
  have scalar: "\<forall>x w. (\<forall>xs. x \<noteq> PyList xs) \<longrightarrow>
                (check_value rt column x = Inr w)
                  = (has_check_and_return base \<and> check rt base x = Inr w)"
    by (simp add: check_value_scalar_iff [OF base])
  have lists: "\<forall>xs ws. (check_value rt column (PyList xs) = Inr (PyList ws))
                  = ((xs = [] \<or> has_check_and_return base)
                     \<and> list_all2 (\<lambda>x w. check rt base x = Inr w) xs ws)"
    by (simp add: check_value_list_iff [OF base])
  show ?thesis
    apply (intro conjI)
       apply (rule null)
      apply (rule more)
     apply (rule same)
    apply (rule exI [of _ base])
    apply (intro conjI)
       apply (rule base)
      apply (rule field)
     apply (rule scalar)
    apply (rule lists)
    done
qed

theorem c7_nullable_field_witness:
  "check any_lib (t_Or t_Int t_Null) PyNone = Inr PyNone
   \<and> check any_lib (t_Or t_Int t_Null) (PyInt 7) = Inr (PyInt 7)
   \<and> check_value any_lib age_column (PyInt 7) = Inr (PyInt 7)
   \<and> check_value any_lib age_column PyNone \<noteq> Inr PyNone"
proof -
  have n: "nullable age_column" and f: "build_field age_column = Inr (t_Or t_Int t_Null)"
    by (simp_all add: age_column_def build_field_def)
  from c7_nullable_field [OF n f, of any_lib PyNone, THEN conjunct2, THEN conjunct2,
      THEN conjunct2]
  obtain base where
    "build_trafaret (type age_column) = Inr base"
    and base: "t_Or t_Int t_Null = t_Or base t_Null"
    and scalar: "\<forall>x w. (\<forall>xs. x \<noteq> PyList xs) \<longrightarrow>
                (check_value any_lib age_column x = Inr w)
                  = (has_check_and_return base \<and> check any_lib base x = Inr w)"
    and "\<forall>xs ws. (check_value any_lib age_column (PyList xs) = Inr (PyList ws))
                  = ((xs = [] \<or> has_check_and_return base)
                     \<and> list_all2 (\<lambda>x w. check any_lib base x = Inr w) xs ws)"
    by (elim exE conjE) (rule that; assumption)
  from base have b: "base = t_Int" by simp
  have "check_value any_lib age_column (PyInt 7) = Inr (PyInt 7)"
    using scalar [rule_format, of "PyInt 7" "PyInt 7"] by (simp add: b)
  moreover have "check_value any_lib age_column PyNone \<noteq> Inr PyNone"
    using scalar [rule_format, of PyNone PyNone] by (simp add: b)
  ultimately show ?thesis by simp
qed

section \<open>The table validator\<close>

lemma table_fields_names:
  "table_fields cs pk skip = Inr kts \<Longrightarrow>
     map (\<lambda>(k, t). (key_name k, key_default k)) kts
       = map (\<lambda>(n, col). (n, map_option as_object (server_default col)))
           (filter (\<lambda>(n, col). \<not> (skip \<and> name col = pk)) cs)"
proof (induction cs arbitrary: kts)
  case Nil
  then show ?case by simp
next
  case (Cons a cs)
  obtain n col where a: "a = (n, col)" by (cases a)
  show ?case
  proof (cases "skip \<and> name col = pk")
    case True
    with Cons a show ?thesis by simp
  next
    case False
    with Cons.prems a obtain f kts' where
      "build_field col = Inr f" "table_fields cs pk skip = Inr kts'"
      "kts = (build_key n (map_option as_object (server_default col)), f) # kts'"
      by (auto split: sum.splits)
    with Cons.IH [of kts'] False a show ?thesis by (auto simp: build_key_def)
  qed
qed

lemma map_of_other_key:
  "n \<noteq> pk \<Longrightarrow> map_of (d1 @ (pk, x) # d2) n = map_of (d1 @ d2) n"
  by (induction d1) auto

lemma key_result_ignored:
  "key_name (fst kt) \<noteq> pk \<Longrightarrow>
     key_result rt (d1 @ (pk, x) # d2) kt = key_result rt (d1 @ d2) kt"
  by (cases kt) (simp add: key_result_def map_of_other_key del: map_of_append)

lemma check_dict_ignored:
  assumes "pk \<notin> key_name ` fst ` set (dict_keys d)" and "pk \<in> set (ignore d)"
  shows "check_dict rt d (PyDict (d1 @ (pk, x) # d2)) = check_dict rt d (PyDict (d1 @ d2))"
proof -
  have keys: "map (key_result rt (d1 @ (pk, x) # d2)) (dict_keys d)
      = map (key_result rt (d1 @ d2)) (dict_keys d)"
    using assms(1) by (intro map_cong refl key_result_ignored) auto
  have extras: "extra_errors ns (ignore d) (d1 @ (pk, x) # d2)
      = extra_errors ns (ignore d) (d1 @ d2)" for ns
    using assms(2) by (simp add: extra_errors_def)
  show ?thesis
    by (simp only: check_dict_def pyval.case keys extras)
qed

lemma key_errors_required:
  "(n, Inl e) \<in> set rs \<Longrightarrow> (Name n, e) \<in> set (key_errors rs)"
  by (induction rs rule: key_errors.induct) auto

text \<open>
  C2, as the claim states it, fails for \<open>skip_pk=False\<close>: the loop then adds the
  primary key column as a key of the dict like any other column, so a payload that
  omits it is rejected (\<open>is required\<close>), while the payload that includes it
  validates.
\<close>

theorem c2_omitted_key_counterexample:
  "validator_from_table dummy2 ''id'' False
     = Inr (Dict [(\<lparr>key_name = ''id'', key_default = None\<rparr>, t_Int),
                  (\<lparr>key_name = ''msg'', key_default = None\<rparr>, t_Or (t_String None) t_Null)]
             [''id''])
   \<and> check_dict any_lib
       (Dict [(\<lparr>key_name = ''id'', key_default = None\<rparr>, t_Int),
              (\<lparr>key_name = ''msg'', key_default = None\<rparr>, t_Or (t_String None) t_Null)]
             [''id''])
       (PyDict [(''msg'', PyStr ''Test'')])
     = Inl (Errors [(Name ''id'', Msg ''is required'')])
   \<and> check_dict any_lib
       (Dict [(\<lparr>key_name = ''id'', key_default = None\<rparr>, t_Int),
              (\<lparr>key_name = ''msg'', key_default = None\<rparr>, t_Or (t_String None) t_Null)]
             [''id''])
       (PyDict [(''id'', PyInt 1), (''msg'', PyStr ''Test'')])
     = Inr (PyDict [(''id'', PyInt 1), (''msg'', PyStr ''Test'')])"
  by (simp add: validator_from_table_def dummy2_def id_column_def msg_column_def build_field_def
      build_key_def check_dict_def key_result_def extra_errors_def)

text \<open>
  C2, amended. For a table whose columns are stored under their names, the validator
  compiled with \<open>skip_pk=True\<close> has no key for the primary key, and the primary key
  is an ignored extra: a payload with it validates exactly as the payload without it.
  With \<open>skip_pk=False\<close> the primary key column is a field like any other: when it has
  no server default, a payload that omits it fails with \<open>is required\<close> for it.
\<close>

theorem c2_primary_key:
  "(keys_are_names table \<and> validator_from_table table pk True = Inr d \<longrightarrow>
      pk \<notin> key_name ` fst ` set (dict_keys d)
      \<and> check_dict rt d (PyDict (d1 @ (pk, x) # d2)) = check_dict rt d (PyDict (d1 @ d2)))
   \<and> (validator_from_table table pk False = Inr d' \<and> map_of (c table) pk = Some column
        \<and> server_default column = None \<and> pk \<notin> fst ` set data \<longrightarrow>
      (\<exists>errors. check_dict rt d' (PyDict data) = Inl (Errors errors)
          \<and> (Name pk, Msg ''is required'') \<in> set errors))"
proof (intro conjI impI)
  assume a: "keys_are_names table \<and> validator_from_table table pk True = Inr d"
  then obtain kts where kts: "table_fields (c table) pk True = Inr kts" and d: "d = Dict kts [pk]"
    by (auto simp: validator_from_table_def split: sum.splits)
  have "map (key_name \<circ> fst) kts = map fst (filter (\<lambda>(n, col). name col \<noteq> pk) (c table))"
    using table_fields_names [OF kts, THEN arg_cong, of "map fst"]
    by (simp add: comp_def case_prod_unfold)
  then have "set (map (key_name \<circ> fst) kts) \<subseteq> {n. n \<noteq> pk}"
    using a by (auto simp: keys_are_names_def list_all_iff)
  then show nk: "pk \<notin> key_name ` fst ` set (dict_keys d)"
    using d by auto
  show "check_dict rt d (PyDict (d1 @ (pk, x) # d2)) = check_dict rt d (PyDict (d1 @ d2))"
    using check_dict_ignored [OF nk] d by simp
next
  assume a: "validator_from_table table pk False = Inr d' \<and> map_of (c table) pk = Some column
        \<and> server_default column = None \<and> pk \<notin> fst ` set data"
  then obtain kts where kts: "table_fields (c table) pk False = Inr kts" and d: "d' = Dict kts [pk]"
    by (auto simp: validator_from_table_def split: sum.splits)
  from a have "(pk, column) \<in> set (c table)" by (auto dest: map_of_SomeD)
  then have "(pk, None) \<in> set (map (\<lambda>(n, col). (n, map_option as_object (server_default col)))
      (c table))"
    using a by force
  then have "(pk, None) \<in> set (map (\<lambda>(k, t). (key_name k, key_default k)) kts)"
    using table_fields_names [OF kts] by simp
  then obtain k t where kt: "(k, t) \<in> set kts" "key_name k = pk" "key_default k = None"
    by auto
  from a have "map_of data pk = None" by (simp add: map_of_eq_None_iff)
  then have "key_result rt data (k, t) = (pk, Inl (Msg ''is required''))"
    using kt by (simp add: key_result_def)
  then have "(pk, Inl (Msg ''is required'')) \<in> set (map (key_result rt data) kts)"
    using kt(1) by force
  then have "(Name pk, Msg ''is required'') \<in> set (key_errors (map (key_result rt data) kts))"
    by (rule key_errors_required)
  then show "\<exists>errors. check_dict rt d' (PyDict data) = Inl (Errors errors)
          \<and> (Name pk, Msg ''is required'') \<in> set errors"
    using d by (auto simp: check_dict_def Let_def)
qed

theorem c2_primary_key_witness:
  "check_dict any_lib (Dict [(\<lparr>key_name = ''msg'', key_default = None\<rparr>, t_Or (t_String None) t_Null)] [''id''])
       (PyDict ([] @ (''id'', PyInt 1) # [(''msg'', PyStr ''Test'')]))
     = check_dict any_lib (Dict [(\<lparr>key_name = ''msg'', key_default = None\<rparr>, t_Or (t_String None) t_Null)] [''id''])
       (PyDict ([] @ [(''msg'', PyStr ''Test'')]))
   \<and> (\<exists>errors. check_dict any_lib
         (Dict [(\<lparr>key_name = ''id'', key_default = None\<rparr>, t_Int),
              (\<lparr>key_name = ''msg'', key_default = None\<rparr>, t_Or (t_String None) t_Null)]
             [''id'']) (PyDict [(''msg'', PyStr ''Test'')]) = Inl (Errors errors)
          \<and> (Name ''id'', Msg ''is required'') \<in> set errors)"
  using c2_primary_key [of dummy2 "''id''"
      "Dict [(\<lparr>key_name = ''msg'', key_default = None\<rparr>, t_Or (t_String None) t_Null)] [''id'']"
      any_lib "[]" "PyInt 1" "[(''msg'', PyStr ''Test'')]"
      "Dict [(\<lparr>key_name = ''id'', key_default = None\<rparr>, t_Int),
              (\<lparr>key_name = ''msg'', key_default = None\<rparr>, t_Or (t_String None) t_Null)]
             [''id'']" id_column "[(''msg'', PyStr ''Test'')]"]
  by (simp add: validator_from_table_def dummy2_def id_column_def msg_column_def build_field_def
      build_key_def keys_are_names_def)

section \<open>List queries and resource registration\<close>

text \<open>
  C9. When the raw query parses, \<open>validate_query\<close> returns the parsed query if every
  column name that the sort field and the filter keys refer to is a column of the table;
  otherwise it fails with one error that names exactly the names that are not.
\<close>

theorem c9_unknown_columns_together:
  assumes "parse raw = Inr q"
  shows "(referenced_columns q \<subseteq> fst ` set (c table) \<longrightarrow>
            validate_query parse raw table = Inr q)
    \<and> (\<not> referenced_columns q \<subseteq> fst ` set (c table) \<longrightarrow>
            validate_query parse raw table
              = Inl (JsonValidaitonError_columns (referenced_columns q - fst ` set (c table))))"
  using assms
  by (auto simp: validate_query_def referenced_columns_def Let_def split: option.splits)

theorem c9_unknown_columns_together_witness:
  "validate_query Inr \<lparr>sortField = Some ''ghost'', filters = Some [(''age'', PyInt 5)]\<rparr> users
     = Inl (JsonValidaitonError_columns {''ghost''})
   \<and> validate_query Inr \<lparr>sortField = Some ''name'', filters = Some [(''age'', PyInt 5)]\<rparr> users
     = Inr \<lparr>sortField = Some ''name'', filters = Some [(''age'', PyInt 5)]\<rparr>"
  using c9_unknown_columns_together [of Inr
      "\<lparr>sortField = Some ''ghost'', filters = Some [(''age'', PyInt 5)]\<rparr>"
      "\<lparr>sortField = Some ''ghost'', filters = Some [(''age'', PyInt 5)]\<rparr>" users]
    c9_unknown_columns_together [of Inr
      "\<lparr>sortField = Some ''name'', filters = Some [(''age'', PyInt 5)]\<rparr>"
      "\<lparr>sortField = Some ''name'', filters = Some [(''age'', PyInt 5)]\<rparr>" users]
  by (auto simp: referenced_columns_def users_def)

lemma omit_fields_total:
  "omit_fields m_fields disp
     = Inr (case disp of None \<Rightarrow> {} | Some d \<Rightarrow> fst ` set m_fields - set d)"
  by (auto simp: omit_fields_def Let_def split: option.splits)

lemma resource_state_total: "\<exists>st. resource_state r = Inr st \<and> list_omit st \<subseteq> fst ` set (model_fields (model r))"
  by (auto simp: resource_state_def Let_def omit_fields_total split: option.splits)

lemma setup_resources_total: "\<exists>st. setup_resources rs resources = Inr st"
proof (induction rs arbitrary: resources)
  case Nil
  then show ?case by simp
next
  case (Cons r rs)
  from resource_state_total [of r] obtain st where "resource_state r = Inr st" by blast
  with Cons.IH show ?case by simp
qed

text \<open>
  C10. Resource registration never raises the \<open>ValueError\<close>: the omitted fields
  are fields of the model by construction, so the loop of \<open>setup_resources\<close> never
  fails, and names in \<open>display\<close> that are no field of the model change nothing.
\<close>

theorem c10_display_never_rejected:
  "(\<forall>e. omit_fields m_fields disp \<noteq> Inl e)
   \<and> (\<forall>omit. omit_fields m_fields disp = Inr omit \<longrightarrow> omit \<subseteq> fst ` set m_fields)
   \<and> (set unknown \<inter> fst ` set m_fields = {} \<longrightarrow>
        omit_fields m_fields (Some (d @ unknown)) = omit_fields m_fields (Some d))
   \<and> (\<forall>e. setup_resources rs resources \<noteq> Inl e)"
proof (intro conjI)
  show "\<forall>e. setup_resources rs resources \<noteq> Inl e"
    using setup_resources_total [of rs resources] by auto
qed (auto simp: omit_fields_total split: option.splits)

theorem c10_display_never_rejected_witness:
  "omit_fields [(''id'', ()), (''msg'', ())] (Some ([''id''] @ [''ghost''])) = Inr {''msg''}
   \<and> (\<exists>st. setup_resources [dummy2_resource] Map.empty = Inr st
          \<and> map_option list_omit (st ''dummy2'') = Some {''msg''})"
  using c10_display_never_rejected [of "[(''id'', ()), (''msg'', ())]" "Some [''id'']"
      "[''ghost'']" "[''id'']" "[dummy2_resource]" Map.empty]
  by (simp add: omit_fields_def resource_state_def dummy2_resource_def)

end
